theory Spec2Isabelle
  imports Main "HOL-Library.Word"
begin

section \<open>Python values, exceptions and the outside world\<close>

text \<open>
  The program is one Python module, \<^verbatim>\<open>main.py\<close>. It reads a character profile from a
  JSON file, renders two prompt templates from it, and talks to a text generation backend
  (\<^verbatim>\<open>ollama.chat\<close>) from a chat callback, \<^verbatim>\<open>run_action\<close>, that keeps the transcript of the
  game in the dict \<^verbatim>\<open>game_state\<close>.

  Values read from the JSON file are modelled by the datatype \<open>json\<close>; a dict is an
  association list that is read with \<open>map_of\<close>. A Python float is an IEEE 754 double, kept
  as its 64 bits.
\<close>

type_synonym py_float = "64 word"

datatype json =
    JNull
  | JBool bool
  | JInt int
  | JFloat py_float
  | JStr string
  | JList "json list"
  | JDict "(string \<times> json) list"

text \<open>
  Every exception the module can meet is a value of \<open>error\<close>, and a computation that may
  raise returns \<open>error + 'a\<close> with \<open>Inl\<close> for the exception. \<^verbatim>\<open>ValueError\<close> and
  \<^verbatim>\<open>RecursionError\<close> are what \<^verbatim>\<open>json.load\<close> raises, beside \<^verbatim>\<open>JSONDecodeError\<close>, on an integer
  of more digits than the interpreter converts and on a nesting deeper than its stack. The
  last two constructors are the failures of the generation backend.
\<close>

datatype error =
    FileNotFoundError
  | PermissionError
  | IsADirectoryError
  | UnicodeDecodeError
  | JSONDecodeError
  | ValueError
  | RecursionError
  | KeyError string
  | TypeError
  | ResponseError string
  | ConnectionError

definition bnd :: "'e + 'a \<Rightarrow> ('a \<Rightarrow> 'e + 'b) \<Rightarrow> 'e + 'b" where
  "bnd r f = (case r of Inl e \<Rightarrow> Inl e | Inr v \<Rightarrow> f v)"

text \<open>
  \<^verbatim>\<open>d[k]\<close> for a string key \<open>k\<close>: a dict raises \<^verbatim>\<open>KeyError\<close> for a missing key, and every
  other JSON value raises \<^verbatim>\<open>TypeError\<close> (a list or a string wants an integer index, the
  rest are not subscriptable).
\<close>

fun subscript :: "json \<Rightarrow> string \<Rightarrow> error + json" where
  "subscript (JDict kvs) k = (case map_of kvs k of None \<Rightarrow> Inl (KeyError k) | Some v \<Rightarrow> Inr v)"
| "subscript _ k = Inl TypeError"

text \<open>
  A replacement field \<^verbatim>\<open>{v}\<close> of an f-string inserts \<^verbatim>\<open>format(v, '')\<close>: a string as it is,
  and for every other JSON value its \<^verbatim>\<open>repr\<close>, which is a parameter here.
\<close>

fun format_value :: "(json \<Rightarrow> string) \<Rightarrow> json \<Rightarrow> string" where
  "format_value repr (JStr s) = s"
| "format_value repr v = repr v"

text \<open>
  \<^verbatim>\<open>str.lower\<close>. Strings are lists of 8-bit characters, and only the letters A to Z change.
  Python also changes letters outside ASCII, but it sends none of them to a letter of
  \<^verbatim>\<open>'start game'\<close>, the only string a lowered string is compared with.
\<close>

definition lower_char :: "char \<Rightarrow> char" where
  "lower_char c =
     (let n = (of_char c :: nat) in if 65 \<le> n \<and> n \<le> 90 then char_of (n + 32) else c)"

definition lower :: "string \<Rightarrow> string" where
  "lower s = map lower_char s"

section \<open>Loading the character profile\<close>

text \<open>
  \<^verbatim>\<open>
  def load_json(filename: str) -> dict:
      try:
          with open(f'{filename}.json', 'r') as file:
              return json.load(file)
      except FileNotFoundError:
          return {}
  \<close>
  The file system is the function \<open>open_file\<close> from a path to the text of the file or to the
  exception that opening and reading it raises. The parser of the \<^verbatim>\<open>json\<close> library is the
  function \<open>json_load\<close> from the text to the value that \<^verbatim>\<open>json.load\<close> returns or to the
  exception that it raises. Both statements are inside the \<^verbatim>\<open>try\<close>, so a
  \<^verbatim>\<open>FileNotFoundError\<close> of either is caught; every other exception goes to the caller.
\<close>

definition load_json ::
  "(string \<Rightarrow> error + string) \<Rightarrow> (string \<Rightarrow> error + json) \<Rightarrow> string \<Rightarrow> error + json" where
  "load_json open_file json_load filename =
     (case bnd (open_file (filename @ ''.json'')) (\<lambda>file. json_load file) of
        Inl e \<Rightarrow> (if e = FileNotFoundError then Inr (JDict []) else Inl e)
      | Inr v \<Rightarrow> Inr v)"

section \<open>The prompt templates\<close>

text \<open>The four lookups that the templates make in the profile.\<close>

definition character_name :: "json \<Rightarrow> error + json" where
  "character_name the_character = subscript the_character ''name''"

definition character_race_name :: "json \<Rightarrow> error + json" where
  "character_race_name the_character =
     bnd (bnd (subscript the_character ''physical'') (\<lambda>physical. subscript physical ''race''))
       (\<lambda>race. subscript race ''name'')"

definition character_class_name :: "json \<Rightarrow> error + json" where
  "character_class_name the_character =
     bnd (subscript the_character ''class'') (\<lambda>class. subscript class ''name'')"

definition character_behaviour :: "json \<Rightarrow> error + json" where
  "character_behaviour the_character = subscript the_character ''behaviour''"

definition dq :: string where
  "dq = [CHR 0x22]"

text \<open>
  The module-level \<^verbatim>\<open>system_prompt\<close>, the f-string that asks for the opening of the
  adventure. Its replacement fields are evaluated from left to right, and the first lookup
  that raises ends the rendering.
\<close>

definition system_prompt :: "(json \<Rightarrow> string) \<Rightarrow> json \<Rightarrow> error + string" where
  "system_prompt repr the_character =
   bnd (character_name the_character) (\<lambda>name1.
   bnd (character_race_name the_character) (\<lambda>race1.
   bnd (character_class_name the_character) (\<lambda>class1.
   bnd (character_behaviour the_character) (\<lambda>behaviour.
   bnd (character_name the_character) (\<lambda>name2.
   bnd (character_race_name the_character) (\<lambda>race2.
   bnd (character_class_name the_character) (\<lambda>class2.
   Inr (
   ''You are an AI Game master. Your job is to create a start to an adventure.\<newline>'' @
   ''\<newline>'' @
   ''You are playing as '' @ format_value repr name1 @
   '', a '' @ format_value repr race1 @
   '' '' @ format_value repr class1 @
   ''.\<newline>'' @
   ''\<newline>'' @
   ''### Character Behaviors (MUST be incorporated naturally into the narrative):\<newline>'' @
   format_value repr behaviour @
   ''\<newline>'' @
   ''\<newline>'' @
   ''Instructions:\<newline>'' @
   ''- Be exceptionally detailed in describing experiences that ignite the imagination.\<newline>'' @
   ''- Write in second person. For example: '' @
   dq @
   ''You are '' @ format_value repr name2 @
   '', a '' @ format_value repr race2 @
   '' '' @ format_value repr class2 @
   dq @
   '' \<newline>'' @
   ''- Write in present tense. For example '' @
   dq @
   ''You stand at...'' @
   dq @
   '' \<newline>'' @
   ''- First describe the character using their exact details from this data: '' @
   format_value repr the_character @
   ''\<newline>'' @
   ''- Then describes where they start and what they see around them.\<newline>'' @
   ''- Naturally weave in at least 2-3 behavioral traits from the character's behavior list.\<newline>'' @
   ''- Focus on anxiety and mental health issues as defined in the character data.\<newline>'' @
   ''- Character's anxious thoughts must be wrapped in triple asterisks for bold italics like this: ***anxious thought here***\<newline>'' @
   ''- Limit to only 1 paragraph.\<newline>'' @
   ''- Always end by presenting 2-4 clear options for what the player can do next.\<newline>'' @
   ''- Format the options as a question, for example: '' @
   dq @
   ''What would you like to do? You can: 1) Try to cast a spell, despite your shaking hands, 2) Take deep breaths to calm your racing thoughts, 3) Search for a quiet corner away from others'' @
   dq @
   ''\<newline>''))))))))"

text \<open>
  The \<^verbatim>\<open>system_prompt\<close> that is local to \<^verbatim>\<open>run_action\<close>, the f-string that asks for the
  next step of the adventure. It reads the global \<^verbatim>\<open>character\<close>.
\<close>

definition run_action_system_prompt :: "(json \<Rightarrow> string) \<Rightarrow> json \<Rightarrow> error + string" where
  "run_action_system_prompt repr the_character =
   bnd (character_name the_character) (\<lambda>name1.
   bnd (character_race_name the_character) (\<lambda>race1.
   bnd (character_class_name the_character) (\<lambda>class1.
   bnd (character_race_name the_character) (\<lambda>race2.
   bnd (character_class_name the_character) (\<lambda>class2.
   bnd (character_behaviour the_character) (\<lambda>behaviour.
   bnd (character_name the_character) (\<lambda>name3.
   bnd (character_race_name the_character) (\<lambda>race3.
   bnd (character_class_name the_character) (\<lambda>class3.
   Inr (
   ''You are an AI Game master. Your job is to write what happens next in a player's adventure game.\<newline>'' @
   ''\<newline>'' @
   ''You are playing as '' @ format_value repr name1 @
   '', a '' @ format_value repr race1 @
   '' '' @ format_value repr class1 @
   ''.\<newline>'' @
   ''\<newline>'' @
   ''### Character Data\<newline>'' @
   ''Race: '' @ format_value repr race2 @
   ''\<newline>'' @
   ''Class: '' @ format_value repr class2 @
   ''\<newline>'' @
   ''Behaviors (MUST be incorporated into every response):\<newline>'' @
   format_value repr behaviour @
   ''\<newline>'' @
   ''\<newline>'' @
   ''Instructions:\<newline>'' @
   ''- As you are writing the story, make sure to include the character's thoughts and feelings.\<newline>'' @
   ''- Each response MUST naturally incorporate at least 2 behaviors from the behavior list.\<newline>'' @
   ''- Character's anxious thoughts must be wrapped in triple asterisks for bold italics like this: ***anxious thought here***\<newline>'' @
   ''- Show her struggle with spellcasting during panic attacks, social anxiety in crowds, and self-doubt about her abilities.\<newline>'' @
   ''- Limit to only 1 paragraph.\<newline>'' @
   ''- Always write in second person present tense. Ex. (You, '' @ format_value repr name3 @
   '' the '' @ format_value repr race3 @
   '' '' @ format_value repr class3 @
   '', look north and see...)\<newline>'' @
   ''- Always end by presenting 2-4 clear options that reflect her mental state, for example: \<newline>'' @
   ''  '' @
   dq @
   ''What would you like to do? You can: \<newline>'' @
   ''  1) Attempt to cast the spell, while thinking ***What if I fail and everyone sees?***\<newline>'' @
   ''  2) Find a quiet corner to practice breathing exercises\<newline>'' @
   ''  3) Try to push through the social anxiety and ask someone for help'' @
   dq @
   ''\<newline>''))))))))))"

section \<open>The generation backend and the game state\<close>

text \<open>
  A message is the dict \<^verbatim>\<open>{"role": ..., "content": ...}\<close>. A request is what one call of
  \<^verbatim>\<open>ollama.chat(model=..., messages=..., options={'temperature': ..., 'seed': ...},
  stream=...)\<close> sends, and a response is what it returns, read by the module only through
  \<^verbatim>\<open>model_output['message']['content']\<close>. The backend is a function from the request to the
  response or to the exception that the call raises.
\<close>

record chat_message =
  role :: string
  content :: string

record chat_options =
  temperature :: int
  options_seed :: int

record chat_request =
  model :: string
  messages :: "chat_message list"
  options :: chat_options
  stream :: bool

record chat_response =
  response_message :: chat_message

type_synonym backend = "chat_request \<Rightarrow> error + chat_response"

text \<open>
  The dict \<^verbatim>\<open>game_state\<close>, with its keys \<^verbatim>\<open>'seed'\<close>, \<^verbatim>\<open>'character'\<close>, \<^verbatim>\<open>'history'\<close> and
  \<^verbatim>\<open>'start'\<close>.
\<close>

record game_state =
  seed :: int
  character :: json
  history :: "(string \<times> string) list"
  start :: string

section \<open>Creating the game state\<close>

text \<open>
  The module-level statements that follow the loading of the profile: render
  \<^verbatim>\<open>system_prompt\<close>, build \<^verbatim>\<open>messages\<close>, create \<^verbatim>\<open>game_state\<close> with a seed drawn by
  \<^verbatim>\<open>np.random.randint(0, 1000000)\<close> (the argument \<open>seed_drawn\<close>), ask the backend for the
  opening and store it under \<^verbatim>\<open>'start'\<close>. The result is the exception or the game state,
  together with the requests that were sent to the backend.
\<close>

definition create_game_state ::
  "backend \<Rightarrow> (json \<Rightarrow> string) \<Rightarrow> json \<Rightarrow> int \<Rightarrow> (error + game_state) \<times> chat_request list" where
  "create_game_state chat repr the_character seed_drawn =
     (case system_prompt repr the_character of
        Inl e \<Rightarrow> (Inl e, [])
      | Inr prompt \<Rightarrow>
          (let msgs = [\<lparr>role = ''system'', content = prompt\<rparr>,
                       \<lparr>role = ''user'', content = ''Your Start:''\<rparr>];
               request = \<lparr>model = ''mattw/llama2-13b-tiefighter'', messages = msgs,
                          options = \<lparr>temperature = 0, options_seed = seed_drawn\<rparr>,
                          stream = False\<rparr>
           in case chat request of
                Inl e \<Rightarrow> (Inl e, [request])
              | Inr model_output \<Rightarrow>
                  (Inr \<lparr>seed = seed_drawn, character = the_character, history = [],
                        start = content (response_message model_output)\<rparr>,
                   [request])))"

text \<open>The whole start of the module, from \<^verbatim>\<open>character = load_json('elara')\<close> on.\<close>

definition module_init ::
  "(string \<Rightarrow> error + string) \<Rightarrow> (string \<Rightarrow> error + json) \<Rightarrow> backend \<Rightarrow> (json \<Rightarrow> string) \<Rightarrow> int
     \<Rightarrow> (error + game_state) \<times> chat_request list" where
  "module_init open_file json_load chat repr seed_drawn =
     (case load_json open_file json_load ''elara'' of
        Inl e \<Rightarrow> (Inl e, [])
      | Inr the_character \<Rightarrow> create_game_state chat repr the_character seed_drawn)"

section \<open>Processing a player action\<close>

text \<open>
  The loop of \<^verbatim>\<open>run_action\<close> over \<^verbatim>\<open>game_state['history']\<close>, which appends a user message
  and an assistant message for every recorded pair.
\<close>

fun append_history :: "chat_message list \<Rightarrow> (string \<times> string) list \<Rightarrow> chat_message list" where
  "append_history msgs [] = msgs"
| "append_history msgs ((user_msg, assistant_msg) # rest) =
     append_history
       (msgs @ [\<lparr>role = ''user'', content = user_msg\<rparr>,
                \<lparr>role = ''assistant'', content = assistant_msg\<rparr>])
       rest"

text \<open>
  The message list that \<^verbatim>\<open>run_action\<close> builds once the prompt is rendered. The argument
  \<open>gradio_history\<close> is the parameter \<^verbatim>\<open>history\<close> of \<^verbatim>\<open>run_action\<close>, the list of pairs that the
  chat widget shows; only its length is read.
\<close>

definition run_action_messages ::
  "string \<Rightarrow> string \<Rightarrow> (string \<times> string) list \<Rightarrow> game_state \<Rightarrow> chat_message list" where
  "run_action_messages prompt message gradio_history gs =
     (let msgs0 = [\<lparr>role = ''system'', content = prompt\<rparr>];
          msgs1 = (if length (history gs) > 0 \<or> length gradio_history > 0
                   then append_history
                          (msgs0 @ [\<lparr>role = ''assistant'', content = start gs\<rparr>])
                          (history gs)
                   else msgs0)
      in msgs1 @ [\<lparr>role = ''user'', content = message\<rparr>])"

definition run_action_request ::
  "string \<Rightarrow> string \<Rightarrow> (string \<times> string) list \<Rightarrow> game_state \<Rightarrow> chat_request" where
  "run_action_request prompt message gradio_history gs =
     \<lparr>model = ''mattw/llama2-13b-tiefighter'',
      messages = run_action_messages prompt message gradio_history gs,
      options = \<lparr>temperature = 0, options_seed = seed gs\<rparr>,
      stream = False\<rparr>"

text \<open>
  What one call of \<^verbatim>\<open>run_action\<close> does: the value it returns or the exception it raises,
  the game state it leaves, and the requests it sent to the backend.
\<close>

record action_outcome =
  returned :: "error + string"
  state :: game_state
  requests :: "chat_request list"

definition run_action ::
  "backend \<Rightarrow> (json \<Rightarrow> string) \<Rightarrow> json \<Rightarrow> string \<Rightarrow> (string \<times> string) list \<Rightarrow> game_state
     \<Rightarrow> action_outcome" where
  "run_action chat repr the_character message gradio_history gs =
     (if lower message = ''start game''
      then \<lparr>returned = Inr (start gs), state = gs, requests = []\<rparr>
      else
        (case run_action_system_prompt repr the_character of
           Inl e \<Rightarrow> \<lparr>returned = Inl e, state = gs, requests = []\<rparr>
         | Inr prompt \<Rightarrow>
             (let request = run_action_request prompt message gradio_history gs
              in case chat request of
                   Inl e \<Rightarrow> \<lparr>returned = Inl e, state = gs, requests = [request]\<rparr>
                 | Inr model_output \<Rightarrow>
                     (let result = content (response_message model_output)
                      in \<lparr>returned = Inr result,
                          state = gs\<lparr>history := history gs @ [(message, result)]\<rparr>,
                          requests = [request]\<rparr>))))"

text \<open>
  \<^verbatim>\<open>main_loop\<close> is the callback of the chat widget. It passes the global \<^verbatim>\<open>game_state\<close>, whose
  \<^verbatim>\<open>'character'\<close> entry is the global \<^verbatim>\<open>character\<close> that the prompt reads.
\<close>

definition main_loop ::
  "backend \<Rightarrow> (json \<Rightarrow> string) \<Rightarrow> string \<Rightarrow> (string \<times> string) list \<Rightarrow> game_state \<Rightarrow> action_outcome" where
  "main_loop chat repr message gradio_history gs =
     run_action chat repr (character gs) message gradio_history gs"

text \<open>
  A play-through is a list of calls of \<^verbatim>\<open>main_loop\<close>, each with the utterance and the widget's
  history at that moment. An exception ends the call, not the process, so the next call
  goes on from the state that the failed call left. \<open>replay\<close> gives the final game state and
  \<open>replay_requests\<close> all the requests sent on the way.
\<close>

fun replay ::
  "backend \<Rightarrow> (json \<Rightarrow> string) \<Rightarrow> (string \<times> (string \<times> string) list) list \<Rightarrow> game_state
     \<Rightarrow> game_state" where
  "replay chat repr [] gs = gs"
| "replay chat repr ((message, gradio_history) # rest) gs =
     replay chat repr rest (state (main_loop chat repr message gradio_history gs))"

fun replay_requests ::
  "backend \<Rightarrow> (json \<Rightarrow> string) \<Rightarrow> (string \<times> (string \<times> string) list) list \<Rightarrow> game_state
     \<Rightarrow> chat_request list" where
  "replay_requests chat repr [] gs = []"
| "replay_requests chat repr ((message, gradio_history) # rest) gs =
     requests (main_loop chat repr message gradio_history gs) @
     replay_requests chat repr rest (state (main_loop chat repr message gradio_history gs))"

section \<open>Trimming, as the specification words the start check\<close>

text \<open>
  The specification compares the utterance with the start sentinel after trimming the
  surrounding whitespace. \<open>spec_trim\<close> is that trimming (\<^verbatim>\<open>str.strip\<close> on ASCII whitespace) and
  \<open>spec_is_start\<close> the check as the specification words it; the check of the code is
  \<open>lower message = ''start game''\<close>.
\<close>

definition whitespace :: "char \<Rightarrow> bool" where
  "whitespace c =
     (c = CHR '' '' \<or> c = CHR 0x09 \<or> c = CHR ''\<newline>'' \<or> c = CHR 0x0B \<or> c = CHR 0x0C \<or> c = CHR 0x0D)"

definition spec_trim :: "string \<Rightarrow> string" where
  "spec_trim s = rev (dropWhile whitespace (rev (dropWhile whitespace s)))"

definition spec_is_start :: "string \<Rightarrow> bool" where
  "spec_is_start message = (lower (spec_trim message) = ''start game'')"

section \<open>Example inputs\<close>

text \<open>
  The profile of the specification's end-to-end example, a stand-in for \<^verbatim>\<open>repr\<close>, a
  backend that answers with a digest of the request (the roles of its messages), a backend
  that is down, a file system without files, and a game state right after its creation.
\<close>

definition example_profile :: json where
  "example_profile =
     JDict [(''name'', JStr ''Elara''),
            (''physical'', JDict [(''race'', JDict [(''name'', JStr ''Elf'')])]),
            (''class'', JDict [(''name'', JStr ''Mage'')]),
            (''behaviour'', JList [JStr ''anxious'', JStr ''perfectionist''])]"

fun example_repr :: "json \<Rightarrow> string" where
  "example_repr (JList xs) = ''[...]''"
| "example_repr (JDict kvs) = ''{...}''"
| "example_repr v = ''?''"

definition digest_backend :: backend where
  "digest_backend request =
     Inr \<lparr>response_message =
            \<lparr>role = ''assistant'', content = concat (map role (messages request))\<rparr>\<rparr>"

definition failing_backend :: backend where
  "failing_backend request = Inl ConnectionError"

definition no_files :: "string \<Rightarrow> error + string" where
  "no_files path = Inl FileNotFoundError"

definition no_json :: "string \<Rightarrow> error + json" where
  "no_json text = Inl JSONDecodeError"

definition example_state :: game_state where
  "example_state =
     \<lparr>seed = 42, character = example_profile, history = [],
      start = ''You stand at the gate.''\<rparr>"

text \<open>
  The game state that the module creates with the example profile, the seed 42 and
  \<open>digest_backend\<close>, whose answer to the opening request is the digest of its two messages.
\<close>

definition created_state :: game_state where
  "created_state =
     \<lparr>seed = 42, character = example_profile, history = [], start = ''systemuser''\<rparr>"

section \<open>JSON integers, and example files\<close>

text \<open>
  A text that is one integer, a digit from 1 to 9 followed by digits, is a valid JSON
  document. \<open>json_integer_text\<close> recognises such a text and \<open>integer_of_text\<close> is the
  integer that it writes.
\<close>

definition digit :: "char \<Rightarrow> bool" where
  "digit c = (48 \<le> (of_char c :: nat) \<and> (of_char c :: nat) \<le> 57)"

definition json_integer_text :: "string \<Rightarrow> bool" where
  "json_integer_text text =
     (text \<noteq> [] \<and> hd text \<noteq> CHR ''0'' \<and> list_all digit text)"

definition integer_of_text :: "string \<Rightarrow> int" where
  "integer_of_text text = foldl (\<lambda>n c. 10 * n + (int (of_char c) - 48)) 0 text"

text \<open>An integer of 5000 digits.\<close>

definition huge_integer_text :: string where
  "huge_integer_text = replicate 5000 (CHR ''1'')"

text \<open>
  A stand-in for \<^verbatim>\<open>json.load\<close> that reads what the example files hold. An integer is
  converted up to the limit of 4300 digits of the interpreter and raises \<^verbatim>\<open>ValueError\<close>
  beyond it, \<^verbatim>\<open>{}\<close> is the empty dict, the text of the profile (a stand-in for its JSON
  text) is the profile, and every other text raises \<^verbatim>\<open>JSONDecodeError\<close>.
\<close>

definition example_json_load :: "string \<Rightarrow> error + json" where
  "example_json_load text =
     (if json_integer_text text
      then (if length text > 4300 then Inl ValueError else Inr (JInt (integer_of_text text)))
      else if text = ''{}'' then Inr (JDict [])
      else if text = ''text of the profile'' then Inr example_profile
      else Inl JSONDecodeError)"

text \<open>
  A file system with the profile, a file that holds the empty dict, a file that holds one
  huge integer, a file that is not JSON and a file that may not be read.
\<close>

definition example_files :: "string \<Rightarrow> error + string" where
  "example_files path =
     (if path = ''elara.json'' then Inr ''text of the profile''
      else if path = ''empty.json'' then Inr ''{}''
      else if path = ''huge.json'' then Inr huge_integer_text
      else if path = ''broken.json'' then Inr ''{''
      else if path = ''locked.json'' then Inl PermissionError
      else Inl FileNotFoundError)"

section \<open>One call of \<open>run_action\<close>, path by path\<close>

lemma lower_upper_sentinel: "lower ''START GAME'' = ''start game''"
  by code_simp

lemma lower_padded_sentinel: "lower '' start game'' \<noteq> ''start game''"
  by (simp add: lower_def)

lemma lower_look_around: "lower ''Look around'' \<noteq> ''start game''"
  by (simp add: lower_def)

lemma lower_go_north: "lower ''Go north'' \<noteq> ''start game''"
  by (simp add: lower_def)

lemma run_action_sentinel:
  "lower message = ''start game'' \<Longrightarrow>
   run_action chat repr c message h gs = \<lparr>returned = Inr (start gs), state = gs, requests = []\<rparr>"
  by (simp add: run_action_def)

lemma run_action_prompt_error:
  "lower message \<noteq> ''start game'' \<Longrightarrow> run_action_system_prompt repr c = Inl e \<Longrightarrow>
   run_action chat repr c message h gs = \<lparr>returned = Inl e, state = gs, requests = []\<rparr>"
  by (simp add: run_action_def)

lemma run_action_backend_error:
  "lower message \<noteq> ''start game'' \<Longrightarrow> run_action_system_prompt repr c = Inr p \<Longrightarrow>
   chat (run_action_request p message h gs) = Inl e \<Longrightarrow>
   run_action chat repr c message h gs =
     \<lparr>returned = Inl e, state = gs, requests = [run_action_request p message h gs]\<rparr>"
  by (simp add: run_action_def)

lemma run_action_success:
  "lower message \<noteq> ''start game'' \<Longrightarrow> run_action_system_prompt repr c = Inr p \<Longrightarrow>
   chat (run_action_request p message h gs) = Inr out \<Longrightarrow>
   run_action chat repr c message h gs =
     \<lparr>returned = Inr (content (response_message out)),
      state = gs\<lparr>history := history gs @ [(message, content (response_message out))]\<rparr>,
      requests = [run_action_request p message h gs]\<rparr>"
  by (simp add: run_action_def Let_def)

text \<open>Both templates render for the example profile.\<close>

lemma example_prompt:
  "\<exists>p. run_action_system_prompt example_repr example_profile = Inr p"
  by (simp add: run_action_system_prompt_def bnd_def character_name_def
      character_race_name_def character_class_name_def character_behaviour_def
      example_profile_def)

lemma example_opening_prompt:
  "\<exists>p. system_prompt example_repr example_profile = Inr p"
  by (simp add: system_prompt_def bnd_def character_name_def
      character_race_name_def character_class_name_def character_behaviour_def
      example_profile_def)

section \<open>The start sentinel\<close>

text \<open>
  Claim C1, as the code has it: for every game state and every utterance whose lowered form
  is exactly \<^verbatim>\<open>'start game'\<close> (nothing is trimmed), \<^verbatim>\<open>run_action\<close> returns
  \<^verbatim>\<open>game_state['start']\<close>, leaves the game state and so the transcript as they are, and
  sends no request to the backend.
\<close>

theorem start_sentinel_returns_opening:
  assumes "lower message = ''start game''"
  shows "returned (run_action chat repr c message h gs) = Inr (start gs) \<and>
         state (run_action chat repr c message h gs) = gs \<and>
         requests (run_action chat repr c message h gs) = []"
  using assms by (simp add: run_action_sentinel)

theorem start_sentinel_returns_opening_witness:
  "lower ''START GAME'' = ''start game'' \<and>
   returned (run_action digest_backend example_repr example_profile ''START GAME'' [] example_state)
     = Inr ''You stand at the gate.'' \<and>
   state (run_action digest_backend example_repr example_profile ''START GAME'' [] example_state)
     = example_state \<and>
   requests (run_action digest_backend example_repr example_profile ''START GAME'' [] example_state)
     = []"
  using start_sentinel_returns_opening [OF lower_upper_sentinel,
      of digest_backend example_repr example_profile "[]" example_state]
    lower_upper_sentinel
  by (simp add: example_state_def)

text \<open>
  With a leading space the utterance still is the sentinel after trimming, but the code
  does not trim: the call goes to the backend, returns its reply and not the opening, and
  records a turn.
\<close>

theorem trimmed_sentinel_counterexample:
  "spec_is_start '' start game'' \<and>
   start example_state = ''You stand at the gate.'' \<and>
   history example_state = [] \<and>
   returned (run_action digest_backend example_repr example_profile '' start game'' [] example_state)
     = Inr ''systemuser'' \<and>
   history (state (run_action digest_backend example_repr example_profile '' start game'' []
     example_state)) = [('' start game'', ''systemuser'')] \<and>
   length (requests (run_action digest_backend example_repr example_profile '' start game'' []
     example_state)) = 1"
proof -
  obtain p where p: "run_action_system_prompt example_repr example_profile = Inr p"
    using example_prompt by blast
  have out: "digest_backend (run_action_request p '' start game'' [] example_state) =
      Inr \<lparr>response_message = \<lparr>role = ''assistant'', content = ''systemuser''\<rparr>\<rparr>"
    by (simp add: digest_backend_def run_action_request_def run_action_messages_def
        example_state_def)
  have s: "spec_is_start '' start game''"
    by code_simp
  show ?thesis
    using s run_action_success [where chat = digest_backend, OF lower_padded_sentinel p out]
    by (simp add: example_state_def)
qed

section \<open>The message list of a continuation call\<close>

lemma append_history_eq:
  "append_history msgs turns =
     msgs @ concat (map (\<lambda>(user_msg, assistant_msg).
                      [\<lparr>role = ''user'', content = user_msg\<rparr>,
                       \<lparr>role = ''assistant'', content = assistant_msg\<rparr>]) turns)"
  by (induction msgs turns rule: append_history.induct) simp_all

lemma run_action_messages_eq:
  "run_action_messages p message h gs =
     (if history gs \<noteq> [] \<or> h \<noteq> []
      then [\<lparr>role = ''system'', content = p\<rparr>, \<lparr>role = ''assistant'', content = start gs\<rparr>] @
           concat (map (\<lambda>(user_msg, assistant_msg).
                      [\<lparr>role = ''user'', content = user_msg\<rparr>,
                       \<lparr>role = ''assistant'', content = assistant_msg\<rparr>]) (history gs)) @
           [\<lparr>role = ''user'', content = message\<rparr>]
      else [\<lparr>role = ''system'', content = p\<rparr>, \<lparr>role = ''user'', content = message\<rparr>])"
  by (simp add: run_action_messages_def append_history_eq)

lemma run_action_requests:
  "lower message \<noteq> ''start game'' \<Longrightarrow> run_action_system_prompt repr c = Inr p \<Longrightarrow>
   requests (run_action chat repr c message h gs) = [run_action_request p message h gs]"
  by (cases "chat (run_action_request p message h gs)")
     (simp_all add: run_action_backend_error run_action_success)

text \<open>
  Claim C2, as the code has it: in a continuation call (the utterance is not the sentinel
  and the prompt renders to \<open>p\<close>), when \<^verbatim>\<open>game_state['history']\<close> is not empty or the
  \<^verbatim>\<open>history\<close> argument that the chat widget passes is not empty, the message list is the
  system message, then the assistant message with \<^verbatim>\<open>game_state['start']\<close>, then the recorded
  turns, then the new user message. When both are empty the list is the system message and
  the user message only, and the opening is not in it.
\<close>

theorem opening_message_guard:
  assumes "lower message \<noteq> ''start game''"
    and "run_action_system_prompt repr c = Inr p"
  shows "map messages (requests (run_action chat repr c message h gs)) =
     [if history gs \<noteq> [] \<or> h \<noteq> []
      then [\<lparr>role = ''system'', content = p\<rparr>, \<lparr>role = ''assistant'', content = start gs\<rparr>] @
           concat (map (\<lambda>(user_msg, assistant_msg).
                      [\<lparr>role = ''user'', content = user_msg\<rparr>,
                       \<lparr>role = ''assistant'', content = assistant_msg\<rparr>]) (history gs)) @
           [\<lparr>role = ''user'', content = message\<rparr>]
      else [\<lparr>role = ''system'', content = p\<rparr>, \<lparr>role = ''user'', content = message\<rparr>]]"
  using assms
  by (simp add: run_action_requests run_action_request_def run_action_messages_eq)

theorem opening_message_guard_witness:
  "lower ''Look around'' \<noteq> ''start game'' \<and>
   (\<exists>p. run_action_system_prompt example_repr example_profile = Inr p \<and>
     map messages (requests (run_action digest_backend example_repr example_profile
       ''Look around'' [(''start game'', ''You stand at the gate.'')] example_state)) =
     [[\<lparr>role = ''system'', content = p\<rparr>,
       \<lparr>role = ''assistant'', content = ''You stand at the gate.''\<rparr>,
       \<lparr>role = ''user'', content = ''Look around''\<rparr>]])"
proof -
  obtain p where p: "run_action_system_prompt example_repr example_profile = Inr p"
    using example_prompt by blast
  show ?thesis
    using lower_look_around p
      opening_message_guard [OF lower_look_around p, of digest_backend
        "[(''start game'', ''You stand at the gate.'')]" example_state]
    by (simp add: example_state_def)
qed

text \<open>
  On a game state that has its opening and no turn yet, a first utterance with an empty
  widget history is sent as system message and user message, with no assistant message at
  all. And when a recorded reply has the text of the opening, two assistant messages carry
  that text.
\<close>

theorem opening_message_counterexample:
  "start example_state = ''You stand at the gate.'' \<and>
   lower ''Look around'' \<noteq> ''start game'' \<and>
   map (map role) (map messages (requests (run_action digest_backend example_repr
     example_profile ''Look around'' [] example_state))) = [[''system'', ''user'']] \<and>
   lower ''Go north'' \<noteq> ''start game'' \<and>
   map (map content) (map tl (map messages (requests (run_action digest_backend example_repr
     example_profile ''Go north'' []
     (example_state\<lparr>history := [(''Look around'', ''You stand at the gate.'')]\<rparr>))))) =
     [[''You stand at the gate.'', ''Look around'', ''You stand at the gate.'', ''Go north'']] \<and>
   map (map role) (map tl (map messages (requests (run_action digest_backend example_repr
     example_profile ''Go north'' []
     (example_state\<lparr>history := [(''Look around'', ''You stand at the gate.'')]\<rparr>))))) =
     [[''assistant'', ''user'', ''assistant'', ''user'']]"
proof -
  obtain p where p: "run_action_system_prompt example_repr example_profile = Inr p"
    using example_prompt by blast
  show ?thesis
    using lower_look_around lower_go_north
    by (simp add: run_action_requests [OF _ p] run_action_request_def run_action_messages_eq
        example_state_def)
qed

text \<open>
  Claim C3: with the transcript \<open>[(u1, r1), (u2, r2)]\<close> and a new utterance \<open>u3\<close> that is not
  the sentinel, the one request of the call carries exactly the messages system,
  assistant (opening), user \<open>u1\<close>, assistant \<open>r1\<close>, user \<open>u2\<close>, assistant \<open>r2\<close>, user \<open>u3\<close>, in
  this order. The system message is the rendered prompt \<open>p\<close>.
\<close>

theorem replay_contract_two_turns:
  assumes "lower u3 \<noteq> ''start game''"
    and "run_action_system_prompt repr c = Inr p"
    and "history gs = [(u1, r1), (u2, r2)]"
  shows "map messages (requests (run_action chat repr c u3 h gs)) =
     [[\<lparr>role = ''system'', content = p\<rparr>,
       \<lparr>role = ''assistant'', content = start gs\<rparr>,
       \<lparr>role = ''user'', content = u1\<rparr>,
       \<lparr>role = ''assistant'', content = r1\<rparr>,
       \<lparr>role = ''user'', content = u2\<rparr>,
       \<lparr>role = ''assistant'', content = r2\<rparr>,
       \<lparr>role = ''user'', content = u3\<rparr>]]"
  using assms
  by (simp add: run_action_requests run_action_request_def run_action_messages_eq)

theorem replay_contract_two_turns_witness:
  "lower ''Open the door'' \<noteq> ''start game'' \<and>
   (\<exists>p. run_action_system_prompt example_repr example_profile = Inr p \<and>
     map messages (requests (run_action digest_backend example_repr example_profile
       ''Open the door'' []
       (example_state\<lparr>history := [(''Look around'', ''A hall.''), (''Go north'', ''A door.'')]\<rparr>))) =
     [[\<lparr>role = ''system'', content = p\<rparr>,
       \<lparr>role = ''assistant'', content = ''You stand at the gate.''\<rparr>,
       \<lparr>role = ''user'', content = ''Look around''\<rparr>,
       \<lparr>role = ''assistant'', content = ''A hall.''\<rparr>,
       \<lparr>role = ''user'', content = ''Go north''\<rparr>,
       \<lparr>role = ''assistant'', content = ''A door.''\<rparr>,
       \<lparr>role = ''user'', content = ''Open the door''\<rparr>]])"
proof -
  obtain p where p: "run_action_system_prompt example_repr example_profile = Inr p"
    using example_prompt by blast
  have l: "lower ''Open the door'' \<noteq> ''start game''"
    by (simp add: lower_def)
  have h: "history (example_state\<lparr>history := [(''Look around'', ''A hall.''),
      (''Go north'', ''A door.'')]\<rparr>) = [(''Look around'', ''A hall.''), (''Go north'', ''A door.'')]"
    by simp
  show ?thesis
    using l p replay_contract_two_turns [OF l p h, of digest_backend "[]"]
    by (simp add: example_state_def)
qed



section \<open>Success and failure of a continuation call\<close>

text \<open>The four ways through \<^verbatim>\<open>run_action\<close>.\<close>

lemma run_action_cases:
  obtains
    (sentinel) "lower message = ''start game''"
  | (prompt_error) e where "lower message \<noteq> ''start game''"
      "run_action_system_prompt repr c = Inl e"
  | (backend_error) p e where "lower message \<noteq> ''start game''"
      "run_action_system_prompt repr c = Inr p"
      "chat (run_action_request p message h gs) = Inl e"
  | (success) p out where "lower message \<noteq> ''start game''"
      "run_action_system_prompt repr c = Inr p"
      "chat (run_action_request p message h gs) = Inr out"
proof (cases "lower message = ''start game''")
  case True
  then show ?thesis by (rule sentinel)
next
  case ns: False
  show ?thesis
  proof (cases "run_action_system_prompt repr c")
    case (Inl e)
    with ns show ?thesis by (rule prompt_error)
  next
    case (Inr p)
    show ?thesis
    proof (cases "chat (run_action_request p message h gs)")
      case (Inl e)
      with ns Inr show ?thesis by (rule backend_error)
    next
      case out: (Inr out)
      with ns Inr show ?thesis by (rule success)
    qed
  qed
qed

text \<open>
  Claim C4: for an utterance that is not the sentinel, a call that returns a reply has sent
  one request, the reply is the content of the backend's answer to it, and the transcript
  has grown by exactly the turn (utterance, reply), with the utterance as it was given.
\<close>

theorem successful_call_appends_turn:
  assumes "lower message \<noteq> ''start game''"
    and "returned (run_action chat repr c message h gs) = Inr reply"
  shows "\<exists>request out.
           requests (run_action chat repr c message h gs) = [request] \<and>
           chat request = Inr out \<and>
           reply = content (response_message out) \<and>
           history (state (run_action chat repr c message h gs)) = history gs @ [(message, reply)] \<and>
           length (history (state (run_action chat repr c message h gs))) =
             length (history gs) + 1"
proof (cases rule: run_action_cases [where message = message and repr = repr and c = c and chat = chat and h = h and gs = gs])
  case sentinel
  with assms show ?thesis by simp
next
  case (prompt_error e)
  with assms show ?thesis by (simp add: run_action_prompt_error)
next
  case (backend_error p e)
  with assms show ?thesis by (simp add: run_action_backend_error)
next
  case (success p out)
  with assms show ?thesis by (simp add: run_action_success)
qed

theorem successful_call_appends_turn_witness:
  "lower ''Look around'' \<noteq> ''start game'' \<and>
   returned (run_action digest_backend example_repr example_profile ''Look around'' []
     example_state) = Inr ''systemuser'' \<and>
   history (state (run_action digest_backend example_repr example_profile ''Look around'' []
     example_state)) = [(''Look around'', ''systemuser'')] \<and>
   length (history (state (run_action digest_backend example_repr example_profile
     ''Look around'' [] example_state))) = 1"
proof -
  obtain p where p: "run_action_system_prompt example_repr example_profile = Inr p"
    using example_prompt by blast
  have out: "digest_backend (run_action_request p ''Look around'' [] example_state) =
      Inr \<lparr>response_message = \<lparr>role = ''assistant'', content = ''systemuser''\<rparr>\<rparr>"
    by (simp add: digest_backend_def run_action_request_def run_action_messages_def
        example_state_def)
  have r: "returned (run_action digest_backend example_repr example_profile ''Look around'' []
     example_state) = Inr ''systemuser''"
    using run_action_success [where chat = digest_backend, OF lower_look_around p out] by simp
  have h: "history example_state = []"
    by (simp add: example_state_def)
  show ?thesis
    using lower_look_around r h successful_call_appends_turn [OF lower_look_around r]
    by auto
qed

text \<open>
  Claim C5: for an utterance that is not the sentinel, when the backend raises \<open>e\<close> on the
  request of the call, the call raises \<open>e\<close> to its caller and leaves the game state, and with
  it the transcript, as it was: no turn is appended.
\<close>

theorem backend_failure_leaves_state:
  assumes "lower message \<noteq> ''start game''"
    and "requests (run_action chat repr c message h gs) = [request]"
    and "chat request = Inl e"
  shows "returned (run_action chat repr c message h gs) = Inl e \<and>
         state (run_action chat repr c message h gs) = gs \<and>
         history (state (run_action chat repr c message h gs)) = history gs"
proof (cases rule: run_action_cases [where message = message and repr = repr and c = c and chat = chat and h = h and gs = gs])
  case sentinel
  with assms show ?thesis by simp
next
  case (prompt_error e')
  with assms show ?thesis by (simp add: run_action_prompt_error)
next
  case (backend_error p e')
  with assms show ?thesis by (simp add: run_action_backend_error)
next
  case (success p out)
  with assms show ?thesis by (auto simp add: run_action_success)
qed

theorem backend_failure_leaves_state_witness:
  "lower ''Look around'' \<noteq> ''start game'' \<and>
   length (requests (run_action failing_backend example_repr example_profile ''Look around'' []
     example_state)) = 1 \<and>
   returned (run_action failing_backend example_repr example_profile ''Look around'' []
     example_state) = Inl ConnectionError \<and>
   state (run_action failing_backend example_repr example_profile ''Look around'' []
     example_state) = example_state"
proof -
  obtain p where p: "run_action_system_prompt example_repr example_profile = Inr p"
    using example_prompt by blast
  have rq: "requests (run_action failing_backend example_repr example_profile ''Look around'' []
     example_state) = [run_action_request p ''Look around'' [] example_state]"
    using lower_look_around p by (rule run_action_requests)
  have f: "failing_backend (run_action_request p ''Look around'' [] example_state) =
      Inl ConnectionError"
    by (simp add: failing_backend_def)
  show ?thesis
    using lower_look_around rq backend_failure_leaves_state [OF lower_look_around rq f]
    by simp
qed

section \<open>What a call changes, and the seed of every request\<close>

lemma run_action_frame_fields:
  "seed (state (run_action chat repr c message h gs)) = seed gs \<and>
   character (state (run_action chat repr c message h gs)) = character gs \<and>
   start (state (run_action chat repr c message h gs)) = start gs"
  by (cases rule: run_action_cases
        [where message = message and repr = repr and c = c and chat = chat and h = h and gs = gs])
     (simp_all add: run_action_sentinel run_action_prompt_error run_action_backend_error
        run_action_success)

lemma run_action_request_options:
  "req \<in> set (requests (run_action chat repr c message h gs)) \<Longrightarrow>
   temperature (options req) = 0 \<and> options_seed (options req) = seed gs"
  by (cases rule: run_action_cases
        [where message = message and repr = repr and c = c and chat = chat and h = h and gs = gs])
     (simp_all add: run_action_sentinel run_action_prompt_error run_action_backend_error
        run_action_success run_action_request_def)

lemma create_game_state_request_options:
  "req \<in> set (snd (create_game_state chat repr c s)) \<Longrightarrow>
   temperature (options req) = 0 \<and> options_seed (options req) = s"
  by (auto simp add: create_game_state_def Let_def split: sum.splits)

lemma create_game_state_seed:
  "fst (create_game_state chat repr c s) = Inr gs \<Longrightarrow> seed gs = s"
  by (auto simp add: create_game_state_def Let_def split: sum.splits)

lemma replay_seed: "seed (replay chat repr calls gs) = seed gs"
  by (induction chat repr calls gs rule: replay.induct)
     (simp_all add: main_loop_def run_action_frame_fields)

lemma replay_request_options:
  "req \<in> set (replay_requests chat repr calls gs) \<Longrightarrow>
   temperature (options req) = 0 \<and> options_seed (options req) = seed gs"
proof (induction chat repr calls gs rule: replay_requests.induct)
  case (1 chat repr gs)
  then show ?case by simp
next
  case (2 chat repr message gradio_history rest gs)
  from "2.prems" consider
      "req \<in> set (requests (main_loop chat repr message gradio_history gs))"
    | "req \<in> set (replay_requests chat repr rest
         (state (main_loop chat repr message gradio_history gs)))"
    by auto
  then show ?case
  proof cases
    case 1
    then show ?thesis by (simp add: main_loop_def run_action_request_options)
  next
    case 2
    then have "temperature (options req) = 0 \<and> options_seed (options req) =
        seed (state (main_loop chat repr message gradio_history gs))"
      by (rule "2.IH")
    then show ?thesis by (simp add: main_loop_def run_action_frame_fields)
  qed
qed

text \<open>
  Claim C7: the opening request that creates the game state is sent with temperature 0 and
  the seed that was drawn; the game state stores that seed; and after any list of calls of
  \<^verbatim>\<open>main_loop\<close> the stored seed is still the drawn one and every request that the calls
  sent has temperature 0 and that seed.
\<close>

theorem seed_fixed_and_used:
  "(\<forall>req \<in> set (snd (create_game_state chat repr c s)).
      temperature (options req) = 0 \<and> options_seed (options req) = s) \<and>
   (fst (create_game_state chat repr c s) = Inr gs0 \<longrightarrow>
      seed gs0 = s \<and>
      seed (replay chat repr calls gs0) = s \<and>
      (\<forall>req \<in> set (replay_requests chat repr calls gs0).
         temperature (options req) = 0 \<and> options_seed (options req) = s))"
  using create_game_state_request_options [of _ chat repr c s]
    create_game_state_seed [of chat repr c s gs0]
    replay_seed [of chat repr calls gs0]
    replay_request_options [of _ chat repr calls gs0]
  by auto

lemma example_create:
  "fst (create_game_state digest_backend example_repr example_profile 42) = Inr created_state"
proof -
  obtain p where p: "system_prompt example_repr example_profile = Inr p"
    using example_opening_prompt by blast
  show ?thesis
    by (simp add: create_game_state_def p Let_def digest_backend_def created_state_def)
qed

lemma example_create_requests:
  "length (snd (create_game_state digest_backend example_repr example_profile 42)) = 1"
proof -
  obtain p where p: "system_prompt example_repr example_profile = Inr p"
    using example_opening_prompt by blast
  show ?thesis
    by (simp add: create_game_state_def p Let_def digest_backend_def)
qed

lemma example_replay_requests:
  "length (replay_requests digest_backend example_repr
     [(''Look around'', []), (''start game'', [(''Look around'', ''systemuser'')]),
      (''Go north'', [(''Look around'', ''systemuser''), (''start game'', ''systemuser'')])]
     created_state) = 2"
proof -
  obtain p where p: "run_action_system_prompt example_repr example_profile = Inr p"
    using example_prompt by blast
  have s: "lower ''start game'' = ''start game''"
    by (simp add: lower_def lower_char_def)
  have c: "character created_state = example_profile"
    by (simp add: created_state_def)
  show ?thesis
    using lower_look_around lower_go_north s p
    by (simp add: main_loop_def c run_action_requests run_action_sentinel
        run_action_frame_fields)
qed

theorem seed_fixed_and_used_witness:
  "fst (create_game_state digest_backend example_repr example_profile 42) = Inr created_state \<and>
   length (snd (create_game_state digest_backend example_repr example_profile 42)) = 1 \<and>
   list_all (\<lambda>req. temperature (options req) = 0 \<and> options_seed (options req) = 42)
     (snd (create_game_state digest_backend example_repr example_profile 42)) \<and>
   seed created_state = 42 \<and>
   seed (replay digest_backend example_repr
     [(''Look around'', []), (''start game'', [(''Look around'', ''systemuser'')]),
      (''Go north'', [(''Look around'', ''systemuser''), (''start game'', ''systemuser'')])]
     created_state) = 42 \<and>
   length (replay_requests digest_backend example_repr
     [(''Look around'', []), (''start game'', [(''Look around'', ''systemuser'')]),
      (''Go north'', [(''Look around'', ''systemuser''), (''start game'', ''systemuser'')])]
     created_state) = 2 \<and>
   list_all (\<lambda>req. temperature (options req) = 0 \<and> options_seed (options req) = 42)
     (replay_requests digest_backend example_repr
       [(''Look around'', []), (''start game'', [(''Look around'', ''systemuser'')]),
        (''Go north'', [(''Look around'', ''systemuser''), (''start game'', ''systemuser'')])]
       created_state)"
  using example_create example_create_requests example_replay_requests
    seed_fixed_and_used [of digest_backend example_repr example_profile 42 created_state
      "[(''Look around'', []), (''start game'', [(''Look around'', ''systemuser'')]),
        (''Go north'', [(''Look around'', ''systemuser''), (''start game'', ''systemuser'')])]"]
  by (simp only: list_all_iff simp_thms) blast

text \<open>
  Claim C10: every call of \<^verbatim>\<open>run_action\<close> leaves \<^verbatim>\<open>'seed'\<close>, \<^verbatim>\<open>'character'\<close> and \<^verbatim>\<open>'start'\<close>
  of the game state as they were, so that only \<^verbatim>\<open>'history'\<close> can differ afterwards, and a
  call with the start sentinel leaves the whole game state as it was.
\<close>

theorem run_action_frame:
  "seed (state (run_action chat repr c message h gs)) = seed gs \<and>
   character (state (run_action chat repr c message h gs)) = character gs \<and>
   start (state (run_action chat repr c message h gs)) = start gs \<and>
   (lower message = ''start game'' \<longrightarrow> state (run_action chat repr c message h gs) = gs)"
  by (simp add: run_action_frame_fields run_action_sentinel)

theorem run_action_frame_witness:
  "lower ''START GAME'' = ''start game'' \<and>
   state (run_action digest_backend example_repr example_profile ''START GAME'' [] example_state)
     = example_state \<and>
   seed (state (run_action digest_backend example_repr example_profile ''Look around'' []
     example_state)) = 42 \<and>
   character (state (run_action digest_backend example_repr example_profile ''Look around'' []
     example_state)) = example_profile \<and>
   start (state (run_action digest_backend example_repr example_profile ''Look around'' []
     example_state)) = ''You stand at the gate.''"
  using lower_upper_sentinel
    run_action_frame [of digest_backend example_repr example_profile "''START GAME''" "[]"
      example_state]
    run_action_frame [of digest_backend example_repr example_profile "''Look around''" "[]"
      example_state]
  by (simp add: example_state_def)

section \<open>Two play-throughs\<close>

text \<open>
  \<^verbatim>\<open>run_action\<close> reads of its \<^verbatim>\<open>history\<close> argument only whether it is empty.
\<close>


lemma run_action_history_argument:
  "(h1 = []) = (h2 = []) \<Longrightarrow>
   run_action chat repr c message h1 gs = run_action chat repr c message h2 gs"
proof -
  assume "(h1 = []) = (h2 = [])"
  then have "\<And>p. run_action_request p message h1 gs = run_action_request p message h2 gs"
    by (simp add: run_action_request_def run_action_messages_def)
  then show ?thesis
    by (simp add: run_action_def cong: sum.case_cong)
qed

lemma replay_history_argument:
  "map fst calls1 = map fst calls2 \<Longrightarrow>
   map (\<lambda>call. snd call = []) calls1 = map (\<lambda>call. snd call = []) calls2 \<Longrightarrow>
   replay chat repr calls1 gs = replay chat repr calls2 gs"
proof (induction calls1 arbitrary: calls2 gs)
  case Nil
  then show ?case by simp
next
  case (Cons call1 rest1)
  then obtain call2 rest2 where calls2: "calls2 = call2 # rest2"
    by (cases calls2) auto
  obtain m1 h1 where call1: "call1 = (m1, h1)" by (cases call1)
  obtain m2 h2 where call2: "call2 = (m2, h2)" by (cases call2)
  from Cons.prems calls2 call1 call2 have m: "m1 = m2" and h: "(h1 = []) = (h2 = [])"
    and rest: "map fst rest1 = map fst rest2"
      "map (\<lambda>call. snd call = []) rest1 = map (\<lambda>call. snd call = []) rest2"
    by simp_all
  have "main_loop chat repr m1 h1 gs = main_loop chat repr m2 h2 gs"
    using m run_action_history_argument [OF h] by (simp add: main_loop_def)
  then show ?case
    using Cons.IH [OF rest] by (simp add: calls2 call1 call2)
qed

text \<open>
  Claim C6, as the code has it: two game states created with the same seed, the same
  profile and the same backend, played with the same utterances, none of them the sentinel,
  and with a widget history that is empty in one play-through exactly when it is empty in
  the other, end with the same transcript.
\<close>

theorem replay_deterministic:
  assumes "fst (create_game_state chat repr c s) = Inr gs1"
    and "fst (create_game_state chat repr c s) = Inr gs2"
    and "map fst calls1 = map fst calls2"
    and "\<forall>message \<in> set (map fst calls1). lower message \<noteq> ''start game''"
    and "map (\<lambda>call. snd call = []) calls1 = map (\<lambda>call. snd call = []) calls2"
  shows "history (replay chat repr calls1 gs1) = history (replay chat repr calls2 gs2)"
proof -
  from assms(1,2) have "gs1 = gs2" by simp
  then show ?thesis
    using replay_history_argument [OF assms(3) assms(5)] by simp
qed

theorem replay_deterministic_witness:
  "fst (create_game_state digest_backend example_repr example_profile 42) = Inr created_state \<and>
   lower ''Look around'' \<noteq> ''start game'' \<and>
   lower ''Go north'' \<noteq> ''start game'' \<and>
   history (replay digest_backend example_repr
     [(''Look around'', []), (''Go north'', [(''Look around'', ''systemuser'')])]
     created_state) =
   history (replay digest_backend example_repr
     [(''Look around'', []), (''Go north'', [(''start game'', ''systemuser''),
        (''Look around'', ''systemuser'')])]
     created_state)"
proof -
  have calls: "map fst [(''Look around'', []), (''Go north'', [(''Look around'', ''systemuser'')])] =
      map fst [(''Look around'', []), (''Go north'', [(''start game'', ''systemuser''),
        (''Look around'', ''systemuser'')])]"
    by simp
  have ns: "\<forall>message \<in> set (map fst [(''Look around'', []),
      (''Go north'', [(''Look around'', ''systemuser'')])]). lower message \<noteq> ''start game''"
    using lower_look_around lower_go_north by simp
  have hs: "map (\<lambda>call. snd call = [])
        [(''Look around'', []), (''Go north'', [(''Look around'', ''systemuser'')])] =
      map (\<lambda>call. snd call = []) [(''Look around'', []),
        (''Go north'', [(''start game'', ''systemuser''), (''Look around'', ''systemuser'')])]"
    by simp
  show ?thesis
    using example_create lower_look_around lower_go_north
      replay_deterministic [OF example_create example_create calls ns hs]
    by blast
qed

text \<open>
  The widget history is an input of its own. The same first utterance on the same created
  game state gets the request without the opening when the widget is empty, and with the
  opening when the widget already shows the exchange of a start sentinel, which left the
  game state untouched; the digests differ, and so do the transcripts.
\<close>

theorem replay_deterministic_counterexample:
  "fst (create_game_state digest_backend example_repr example_profile 42) = Inr created_state \<and>
   lower ''Look around'' \<noteq> ''start game'' \<and>
   history (replay digest_backend example_repr [(''Look around'', [])] created_state) =
     [(''Look around'', ''systemuser'')] \<and>
   history (replay digest_backend example_repr
     [(''Look around'', [(''start game'', ''systemuser'')])] created_state) =
     [(''Look around'', ''systemassistantuser'')]"
proof -
  obtain p where p: "run_action_system_prompt example_repr example_profile = Inr p"
    using example_prompt by blast
  have c: "character created_state = example_profile"
    by (simp add: created_state_def)
  have out1: "digest_backend (run_action_request p ''Look around'' [] created_state) =
      Inr \<lparr>response_message = \<lparr>role = ''assistant'', content = ''systemuser''\<rparr>\<rparr>"
    by (simp add: digest_backend_def run_action_request_def run_action_messages_def
        created_state_def)
  have out2: "digest_backend (run_action_request p ''Look around''
        [(''start game'', ''systemuser'')] created_state) =
      Inr \<lparr>response_message = \<lparr>role = ''assistant'', content = ''systemassistantuser''\<rparr>\<rparr>"
    by (simp add: digest_backend_def run_action_request_def run_action_messages_def
        created_state_def)
  show ?thesis
    using example_create lower_look_around
      run_action_success [where chat = digest_backend, OF lower_look_around p out1]
      run_action_success [where chat = digest_backend, OF lower_look_around p out2]
    by (simp add: main_loop_def c) (simp add: created_state_def)
qed

section \<open>The profile file\<close>

text \<open>Both templates look up \<^verbatim>\<open>'name'\<close> first, and an empty dict has no key.\<close>


lemma system_prompt_empty: "system_prompt repr (JDict []) = Inl (KeyError ''name'')"
  by (simp add: system_prompt_def bnd_def character_name_def)

lemma run_action_system_prompt_empty:
  "run_action_system_prompt repr (JDict []) = Inl (KeyError ''name'')"
  by (simp add: run_action_system_prompt_def bnd_def character_name_def)

text \<open>
  Claim C8, as far as the code goes: when the file \<^verbatim>\<open>elara.json\<close> does not exist, loading
  yields the empty dict and not an exception, and the module goes on with the empty dict as
  the profile, to the rendering of the opening prompt.
\<close>

theorem missing_profile_loads_empty:
  assumes "open_file ''elara.json'' = Inl FileNotFoundError"
  shows "load_json open_file json_load ''elara'' = Inr (JDict []) \<and>
         module_init open_file json_load chat repr s = create_game_state chat repr (JDict []) s"
  using assms by (simp add: module_init_def load_json_def bnd_def)

theorem missing_profile_loads_empty_witness:
  "no_files ''elara.json'' = Inl FileNotFoundError \<and>
   load_json no_files no_json ''elara'' = Inr (JDict []) \<and>
   module_init no_files no_json digest_backend example_repr 42 =
     create_game_state digest_backend example_repr (JDict []) 42"
proof -
  have f: "no_files ''elara.json'' = Inl FileNotFoundError"
    by (simp add: no_files_def)
  show ?thesis
    using f missing_profile_loads_empty [where open_file = no_files, OF f, of no_json digest_backend example_repr 42]
    by simp
qed

text \<open>
  No prompt comes out of the empty profile: with no file the start of the module ends with
  \<^verbatim>\<open>KeyError('name')\<close>, raised by the first replacement field of the opening prompt, before
  any request is sent.
\<close>

theorem missing_profile_counterexample:
  "no_files ''elara.json'' = Inl FileNotFoundError \<and>
   load_json no_files no_json ''elara'' = Inr (JDict []) \<and>
   system_prompt example_repr (JDict []) = Inl (KeyError ''name'') \<and>
   module_init no_files no_json digest_backend example_repr 42 = (Inl (KeyError ''name''), [])"
  by (simp add: no_files_def load_json_def bnd_def module_init_def create_game_state_def
      system_prompt_empty)

text \<open>What the stand-in parser reads in the example files.\<close>


lemma huge_is_integer: "json_integer_text huge_integer_text"
  by (simp add: json_integer_text_def huge_integer_text_def list_all_iff digit_def)

lemma huge_length: "length huge_integer_text = 5000"
  by (simp only: huge_integer_text_def length_replicate)

lemma example_json_load_huge: "example_json_load huge_integer_text = Inl ValueError"
  by (simp add: example_json_load_def huge_is_integer huge_length)

lemma example_json_load_empty: "example_json_load ''{}'' = Inr (JDict [])"
  by (simp add: example_json_load_def json_integer_text_def digit_def)

lemma example_json_load_profile:
  "example_json_load ''text of the profile'' = Inr example_profile"
  by (simp add: example_json_load_def json_integer_text_def digit_def)

lemma example_json_load_broken: "example_json_load ''{'' = Inl JSONDecodeError"
  by (simp add: example_json_load_def json_integer_text_def digit_def)

text \<open>
  Claim C9, as the code has it: \<^verbatim>\<open>load_json\<close> puts the empty dict in the place of the file
  when opening it raises \<^verbatim>\<open>FileNotFoundError\<close>. For a file that exists it returns the value
  that \<^verbatim>\<open>json.load\<close> returns, whenever \<^verbatim>\<open>json.load\<close> returns one, and every exception of
  \<^verbatim>\<open>json.load\<close> other than \<^verbatim>\<open>FileNotFoundError\<close> goes to the caller, as does every other
  exception of opening the file.
\<close>

theorem load_json_cases:
  "(open_file (filename @ ''.json'') = Inl FileNotFoundError \<longrightarrow>
      load_json open_file json_load filename = Inr (JDict [])) \<and>
   (\<forall>file v. open_file (filename @ ''.json'') = Inr file \<and> json_load file = Inr v \<longrightarrow>
      load_json open_file json_load filename = Inr v) \<and>
   (\<forall>file e. open_file (filename @ ''.json'') = Inr file \<and> json_load file = Inl e \<and>
        e \<noteq> FileNotFoundError \<longrightarrow>
      load_json open_file json_load filename = Inl e) \<and>
   (\<forall>e. open_file (filename @ ''.json'') = Inl e \<and> e \<noteq> FileNotFoundError \<longrightarrow>
      load_json open_file json_load filename = Inl e)"
  by (simp add: load_json_def bnd_def)

theorem load_json_cases_witness:
  "example_files (''missing'' @ ''.json'') = Inl FileNotFoundError \<and>
   load_json example_files example_json_load ''missing'' = Inr (JDict []) \<and>
   example_files (''elara'' @ ''.json'') = Inr ''text of the profile'' \<and>
   example_json_load ''text of the profile'' = Inr example_profile \<and>
   load_json example_files example_json_load ''elara'' = Inr example_profile \<and>
   example_files (''broken'' @ ''.json'') = Inr ''{'' \<and>
   example_json_load ''{'' = Inl JSONDecodeError \<and>
   load_json example_files example_json_load ''broken'' = Inl JSONDecodeError \<and>
   example_files (''locked'' @ ''.json'') = Inl PermissionError \<and>
   load_json example_files example_json_load ''locked'' = Inl PermissionError"
proof -
  have f1: "example_files (''missing'' @ ''.json'') = Inl FileNotFoundError"
    and f2: "example_files (''elara'' @ ''.json'') = Inr ''text of the profile''"
    and f3: "example_files (''broken'' @ ''.json'') = Inr ''{''"
    and f4: "example_files (''locked'' @ ''.json'') = Inl PermissionError"
    by (simp_all add: example_files_def)
  have d: "JSONDecodeError \<noteq> FileNotFoundError" "PermissionError \<noteq> FileNotFoundError"
    by simp_all
  show ?thesis
    using f1 f2 f3 f4 d example_json_load_profile example_json_load_broken
      load_json_cases [of example_files "''missing''" example_json_load]
      load_json_cases [of example_files "''elara''" example_json_load]
      load_json_cases [of example_files "''broken''" example_json_load]
      load_json_cases [of example_files "''locked''" example_json_load]
    by (simp only: simp_thms)
qed

text \<open>
  A file that exists and holds \<^verbatim>\<open>{}\<close> gives the empty dict too. And a file that holds valid
  JSON need not give a parsed value: for an integer of 5000 digits the parser raises
  \<^verbatim>\<open>ValueError\<close>, which goes to the caller.
\<close>

theorem load_json_counterexample:
  "example_files (''empty'' @ ''.json'') = Inr ''{}'' \<and>
   load_json example_files example_json_load ''empty'' = Inr (JDict []) \<and>
   example_files (''huge'' @ ''.json'') = Inr huge_integer_text \<and>
   json_integer_text huge_integer_text \<and>
   length huge_integer_text = 5000 \<and>
   load_json example_files example_json_load ''huge'' = Inl ValueError"
  by (simp add: load_json_def bnd_def example_files_def example_json_load_empty
      example_json_load_huge huge_is_integer huge_length)

end
